theory Spec2Isabelle
  imports Complex_Main
begin

section \<open>Values\<close>

text \<open>
  The chatbot is a Python program. Its functions are embedded as HOL functions over the
  values they handle; every definition below names the source function it follows.

  Exceptions are values: a function that can raise returns \<open>error + 'a\<close>, with
  \<open>Inl\<close> for the exception. \<open>ServiceError\<close> stands for whatever the completion
  service raises.
\<close>

datatype error =
    ValueError string
  | TypeError string
  | LookupError
  | ServiceError string

text \<open>
  Plain nested data: the dictionaries and lists from which the adaptive card is built
  (\<open>utils.py\<close>). A Python \<open>float\<close> is carried as a number and never computed
  with.
\<close>

datatype json =
    JNull
  | JBool bool
  | JNum real
  | JStr string
  | JList "json list"
  | JObj "(string \<times> json) list"

subsection \<open>Attachments (\<open>data_models/attachments.py\<close>)\<close>

text \<open>
  Each pydantic class is a constructor of the class's name; its fields are the
  constructor's arguments in the order the class declares them.
  \<^item> \<open>Media content mime_type label\<close>
  \<^item> \<open>Citation title url content metadata\<close>, declared with the values below, since
    \<open>metadata\<close> is a \<open>dict[str, Any]\<close>
\<close>

datatype media = Media string string "string option"

datatype ChartColor =
    GOOD | WARNING | ATTENTION | NEUTRAL
  | CATEGORICAL_RED | CATEGORICAL_PURPLE | CATEGORICAL_LAVENDER | CATEGORICAL_BLUE
  | CATEGORICAL_LIGHT_BLUE | CATEGORICAL_TEAL | CATEGORICAL_GREEN | CATEGORICAL_LIME
  | CATEGORICAL_MARIGOLD
  | SEQUENTIAL_1 | SEQUENTIAL_2 | SEQUENTIAL_3 | SEQUENTIAL_4
  | SEQUENTIAL_5 | SEQUENTIAL_6 | SEQUENTIAL_7 | SEQUENTIAL_8
  | DIVERGING_BLUE | DIVERGING_LIGHT_BLUE | DIVERGING_CYAN | DIVERGING_TEAL
  | DIVERGING_YELLOW | DIVERGING_PEACH | DIVERGING_LIGHT_RED | DIVERGING_RED
  | DIVERGING_MAROON | DIVERGING_GRAY

text \<open>\<open>ChartColor\<close> is a \<open>str\<close> enumeration: every member has a string value.\<close>

fun chart_color_value :: "ChartColor \<Rightarrow> string" where
  "chart_color_value GOOD = ''good''"
| "chart_color_value WARNING = ''warning''"
| "chart_color_value ATTENTION = ''attention''"
| "chart_color_value NEUTRAL = ''neutral''"
| "chart_color_value CATEGORICAL_RED = ''categoricalRed''"
| "chart_color_value CATEGORICAL_PURPLE = ''categoricalPurple''"
| "chart_color_value CATEGORICAL_LAVENDER = ''categoricalLavender''"
| "chart_color_value CATEGORICAL_BLUE = ''categoricalBlue''"
| "chart_color_value CATEGORICAL_LIGHT_BLUE = ''categoricalLightBlue''"
| "chart_color_value CATEGORICAL_TEAL = ''categoricalTeal''"
| "chart_color_value CATEGORICAL_GREEN = ''categoricalGreen''"
| "chart_color_value CATEGORICAL_LIME = ''categoricalLime''"
| "chart_color_value CATEGORICAL_MARIGOLD = ''categoricalMarigold''"
| "chart_color_value SEQUENTIAL_1 = ''sequential1''"
| "chart_color_value SEQUENTIAL_2 = ''sequential2''"
| "chart_color_value SEQUENTIAL_3 = ''sequential3''"
| "chart_color_value SEQUENTIAL_4 = ''sequential4''"
| "chart_color_value SEQUENTIAL_5 = ''sequential5''"
| "chart_color_value SEQUENTIAL_6 = ''sequential6''"
| "chart_color_value SEQUENTIAL_7 = ''sequential7''"
| "chart_color_value SEQUENTIAL_8 = ''sequential8''"
| "chart_color_value DIVERGING_BLUE = ''divergingBlue''"
| "chart_color_value DIVERGING_LIGHT_BLUE = ''divergingLightBlue''"
| "chart_color_value DIVERGING_CYAN = ''divergingCyan''"
| "chart_color_value DIVERGING_TEAL = ''divergingTeal''"
| "chart_color_value DIVERGING_YELLOW = ''divergingYellow''"
| "chart_color_value DIVERGING_PEACH = ''divergingPeach''"
| "chart_color_value DIVERGING_LIGHT_RED = ''divergingLightRed''"
| "chart_color_value DIVERGING_RED = ''divergingRed''"
| "chart_color_value DIVERGING_MAROON = ''divergingMaroon''"
| "chart_color_value DIVERGING_GRAY = ''divergingGray''"

text \<open>An axis value \<open>x: str | float\<close>.\<close>

datatype str_or_float = Str string | Float real

text \<open>
  \<^item> \<open>VerticalBarChartDataValue color x y\<close>
  \<^item> \<open>LineChartDataValue x y\<close>
  \<^item> \<open>LineChartData values color legend\<close>
  \<^item> \<open>PieChartData value color legend\<close>
\<close>

datatype VerticalBarChartDataValue =
  VerticalBarChartDataValue "ChartColor option" str_or_float real

datatype LineChartDataValue = LineChartDataValue str_or_float real

datatype LineChartData =
  LineChartData "LineChartDataValue list" "ChartColor option" "string option"

datatype PieChartData = PieChartData real "ChartColor option" "string option"

text \<open>
  \<open>Chart\<close> is the base class, with the fields \<open>id\<close> and \<open>title\<close>; it is a concrete
  class, so \<open>Chart id title\<close> is a value of its own. The three subclasses add
  \<open>data\<close>. \<open>isinstance(v, Chart)\<close> holds of all four.
\<close>

datatype chart =
    Chart string string
  | VerticalBarChart string string "VerticalBarChartDataValue list"
  | LineChart string string "LineChartData list"
  | PieChart string string "PieChartData list"

subsection \<open>What a tool returns\<close>

text \<open>
  A tool result is \<open>Any\<close>. The values below are the ones the harvester tells apart:
  the attachment classes, the containers it walks, and everything else. A set and a
  dictionary are given in iteration order; \<open>PObject\<close> is an instance of any other
  class, named by a label, with no operators of its own. Floating-point results are left
  out. The type is a datatype, so every value is a finite tree: the acyclic structures
  the harvester is specified for. An object that is reachable twice occurs twice in the
  tree. The metadata of a citation is a dictionary from strings to any such values.
\<close>

datatype pyval =
    PNone
  | PBool bool
  | PInt int
  | PStr string
  | PList "pyval list"
  | PTuple "pyval list"
  | PSet "pyval list"
  | PDict "(pyval \<times> pyval) list"
  | PObject string
  | PCitation citation
  | PMedia media
  | PChart chart
and citation = Citation string string string "(string \<times> pyval) list"

section \<open>The attachment harvester (\<open>utils.extract_attachments\<close>)\<close>

text \<open>
  The inner function \<open>_collect\<close> appends to the list \<open>attachments\<close> of the enclosing
  call; here the list is passed in and returned. \<open>map snd kvs\<close> is
  \<open>value.values()\<close>.
\<close>

fun collect :: "pyval \<Rightarrow> pyval list \<Rightarrow> pyval list" where
  "collect (PCitation c) attachments = attachments @ [PCitation c]"
| "collect (PMedia m) attachments = attachments @ [PMedia m]"
| "collect (PChart ch) attachments = attachments @ [PChart ch]"
| "collect (PList items) attachments = fold collect items attachments"
| "collect (PTuple items) attachments = fold collect items attachments"
| "collect (PSet items) attachments = fold collect items attachments"
| "collect (PDict kvs) attachments = fold collect (map snd kvs) attachments"
| "collect _ attachments = attachments"

definition extract_attachments :: "pyval \<Rightarrow> pyval list" where
  "extract_attachments result = collect result []"

fun is_attachment :: "pyval \<Rightarrow> bool" where
  "is_attachment (PCitation c) = True"
| "is_attachment (PMedia m) = True"
| "is_attachment (PChart ch) = True"
| "is_attachment _ = False"

section \<open>Conversation data (\<open>data_models/conversation_data.py\<close>)\<close>

text \<open>
  \<open>datetime\<close> has microsecond resolution: a point in time is a number of
  microseconds. The difference of two is a \<open>timedelta\<close>, which Python keeps
  normalised as days, seconds in \<open>[0, 86400)\<close> and microseconds in \<open>[0, 10^6)\<close>.
\<close>

type_synonym datetime = int

record timedelta =
  days :: int
  seconds :: int
  microseconds :: int

definition datetime_sub :: "datetime \<Rightarrow> datetime \<Rightarrow> timedelta" where
  "datetime_sub t2 t1 =
     (let d = t2 - t1; r = d mod 86400000000
      in \<lparr>days = d div 86400000000, seconds = r div 1000000, microseconds = r mod 1000000\<rparr>)"

text \<open>
  One entry of the tool-usage log: the dictionary that the instrumented tool function
  appends (\<open>chat_completion_agent.py\<close>, lines 183 to 190). \<open>start_time\<close> is stored
  as ISO text in the source and as the point in time here.
\<close>

record tool_usage =
  tool_name :: string
  args :: "pyval list"
  kwargs :: "(string \<times> pyval) list"
  result :: pyval
  start_time :: datetime
  duration :: int

text \<open>
  \<open>metadata\<close> is a dictionary; the only key the program writes is
  \<open>"tool_usage"\<close>, with the log as its value.
\<close>

record ConversationTurn =
  role :: string
  content :: string
  created_at :: datetime
  metadata :: "(string \<times> tool_usage list) list"
  attachments :: "pyval list"

record ConversationData =
  thread_id :: "string option"
  history :: "ConversationTurn list"
  max_turns :: int

text \<open>
  \<open>add_turn\<close>: append, then \<open>pop(0)\<close> when the length has reached \<open>max_turns\<close>.
  The list is not empty after the append, so \<open>pop(0)\<close> cannot raise and is \<open>tl\<close>.
\<close>

definition add_turn :: "ConversationData \<Rightarrow> ConversationTurn \<Rightarrow> ConversationData" where
  "add_turn self turn =
     (let appended = history self @ [turn]
      in if int (length appended) \<ge> max_turns self
         then self\<lparr>history := tl appended\<rparr>
         else self\<lparr>history := appended\<rparr>)"

text \<open>\<open>toMessages\<close>: the role and content of every turn, in order.\<close>

definition toMessages :: "ConversationData \<Rightarrow> (string \<times> string) list" where
  "toMessages self = map (\<lambda>turn. (role turn, content turn)) (history self)"

section \<open>The turn renderer (\<open>utils.py\<close>)\<close>

subsection \<open>Serialising chart data\<close>

text \<open>
  \<open>model_dump(mode="json")\<close> is pydantic's: a dictionary of the fields in
  declaration order, an enumeration member as its value, \<open>None\<close> as null, a nested
  model dumped in turn.
\<close>

fun color_json :: "ChartColor option \<Rightarrow> json" where
  "color_json None = JNull"
| "color_json (Some c) = JStr (chart_color_value c)"

fun optional_str_json :: "string option \<Rightarrow> json" where
  "optional_str_json None = JNull"
| "optional_str_json (Some s) = JStr s"

fun str_or_float_json :: "str_or_float \<Rightarrow> json" where
  "str_or_float_json (Str s) = JStr s"
| "str_or_float_json (Float r) = JNum r"

fun VerticalBarChartDataValue_model_dump :: "VerticalBarChartDataValue \<Rightarrow> json" where
  "VerticalBarChartDataValue_model_dump (VerticalBarChartDataValue color x y) =
     JObj [(''color'', color_json color), (''x'', str_or_float_json x), (''y'', JNum y)]"

fun LineChartDataValue_model_dump :: "LineChartDataValue \<Rightarrow> json" where
  "LineChartDataValue_model_dump (LineChartDataValue x y) =
     JObj [(''x'', str_or_float_json x), (''y'', JNum y)]"

fun LineChartData_model_dump :: "LineChartData \<Rightarrow> json" where
  "LineChartData_model_dump (LineChartData values color legend) =
     JObj [(''values'', JList (map LineChartDataValue_model_dump values)),
           (''color'', color_json color),
           (''legend'', optional_str_json legend)]"

fun PieChartData_model_dump :: "PieChartData \<Rightarrow> json" where
  "PieChartData_model_dump (PieChartData val color legend) =
     JObj [(''value'', JNum val), (''color'', color_json color),
           (''legend'', optional_str_json legend)]"

subsection \<open>One element per attachment\<close>

text \<open>
  \<open>get_citations_element\<close>. \<open>json.dumps\<close> is the standard library's and is a
  parameter here: \<open>json_dumps\<close> turns the metadata dictionary into its text, or raises
  (\<open>TypeError\<close> for a value that is not JSON data). An empty dictionary is falsy: it
  gives the empty snippet and is not handed to \<open>json.dumps\<close>.
\<close>

fun get_citations_element ::
  "((string \<times> pyval) list \<Rightarrow> error + string) \<Rightarrow> citation \<Rightarrow> error + json" where
  "get_citations_element json_dumps (Citation title url citation_content citation_metadata) =
     (case (if citation_metadata \<noteq> [] then json_dumps citation_metadata else Inr []) of
        Inl e \<Rightarrow> Inl e
      | Inr snippet \<Rightarrow>
          Inr (JObj [(''type'', JStr ''Container''),
                     (''items'', JList [
                        JObj [(''type'', JStr ''TextBlock''),
                              (''text'', JStr (''['' @ title @ '']('' @ url @ '')'')),
                              (''wrap'', JBool True),
                              (''size'', JStr ''Medium'')],
                        JObj [(''type'', JStr ''CodeBlock''),
                              (''codeSnippet'', JStr snippet),
                              (''language'', JStr ''Json'')]])]))"

text \<open>\<open>get_media_element\<close>. \<open>media.label or "Media Attachment"\<close>: a missing and an
  empty label both give the placeholder.\<close>

fun get_media_element :: "media \<Rightarrow> json" where
  "get_media_element (Media media_content mime_type label) =
     JObj [(''type'', JStr ''Media''),
           (''sources'', JList [
              JObj [(''mimeType'', JStr mime_type),
                    (''url'', JStr media_content),
                    (''label'', JStr (case label of
                                       None \<Rightarrow> ''Media Attachment''
                                     | Some l \<Rightarrow> if l = [] then ''Media Attachment'' else l))]])]"

text \<open>
  \<open>get_chart_card\<close>. The source sets \<open>type\<close> by an \<open>isinstance\<close> chain over the three
  subclasses and raises \<open>ValueError("Unsupported chart type")\<close> when \<open>type\<close> is still
  empty, which is the case of a chart that is none of the three. \<open>chart_card\<close> is the
  dictionary it returns otherwise; \<open>data\<close> is
  \<open>[d.model_dump(mode="json") for d in chart.data] if chart.data else []\<close>.
\<close>

definition chart_card :: "string \<Rightarrow> string \<Rightarrow> string \<Rightarrow> json list \<Rightarrow> json" where
  "chart_card chart_id chart_type title data =
     JObj [(''id'', JStr chart_id), (''type'', JStr chart_type), (''title'', JStr title),
           (''data'', JList data)]"

fun get_chart_card :: "chart \<Rightarrow> error + json" where
  "get_chart_card (VerticalBarChart chart_id title data) =
     Inr (chart_card chart_id ''Chart.VerticalBar'' title
            (if data \<noteq> [] then map VerticalBarChartDataValue_model_dump data else []))"
| "get_chart_card (LineChart chart_id title data) =
     Inr (chart_card chart_id ''Chart.Line'' title
            (if data \<noteq> [] then map LineChartData_model_dump data else []))"
| "get_chart_card (PieChart chart_id title data) =
     Inr (chart_card chart_id ''Chart.Pie'' title
            (if data \<noteq> [] then map PieChartData_model_dump data else []))"
| "get_chart_card (Chart chart_id title) = Inl (ValueError ''Unsupported chart type'')"

subsection \<open>Collapsible sections\<close>

text \<open>\<open>get_expandable_block\<close>: the dictionary literal of the source, key by key.\<close>

definition get_expandable_block :: "string \<Rightarrow> string \<Rightarrow> json list \<Rightarrow> json" where
  "get_expandable_block block_id title elements =
     JObj [
       (''type'', JStr ''Container''),
       (''items'', JList [
          JObj [
            (''type'', JStr ''ColumnSet''),
            (''columns'', JList [
               JObj [(''type'', JStr ''Column''),
                     (''items'', JList [
                        JObj [(''type'', JStr ''TextBlock''),
                              (''text'', JStr title),
                              (''wrap'', JBool True),
                              (''size'', JStr ''Medium'')]]),
                     (''width'', JStr ''stretch'')],
               JObj [(''type'', JStr ''Column''),
                     (''id'', JStr (''chevronDown'' @ block_id)),
                     (''spacing'', JStr ''Small''),
                     (''verticalContentAlignment'', JStr ''Center''),
                     (''items'', JList [
                        JObj [(''type'', JStr ''Image''),
                              (''url'', JStr ''https://adaptivecards.io/content/down.png''),
                              (''width'', JStr ''20px''),
                              (''altText'', JStr ''collapsed'')]]),
                     (''width'', JStr ''auto''),
                     (''isVisible'', JBool False)],
               JObj [(''type'', JStr ''Column''),
                     (''id'', JStr (''chevronUp'' @ block_id)),
                     (''spacing'', JStr ''Small''),
                     (''verticalContentAlignment'', JStr ''Center''),
                     (''items'', JList [
                        JObj [(''type'', JStr ''Image''),
                              (''url'', JStr ''https://adaptivecards.io/content/up.png''),
                              (''width'', JStr ''20px''),
                              (''altText'', JStr ''expanded'')]]),
                     (''width'', JStr ''auto'')]]),
            (''selectAction'',
               JObj [(''type'', JStr ''Action.ToggleVisibility''),
                     (''targetElements'', JList [
                        JStr (''cardContent'' @ block_id),
                        JStr (''chevronUp'' @ block_id),
                        JStr (''chevronDown'' @ block_id)])])],
          JObj [
            (''type'', JStr ''Container''),
            (''id'', JStr (''cardContent'' @ block_id)),
            (''items'', JList [
               JObj [(''type'', JStr ''Container''),
                     (''fallback'',
                        JObj [(''type'', JStr ''TextBlock''),
                              (''text'', JStr ''The elements for this block aren't supported.''),
                              (''wrap'', JBool True)]),
                     (''items'', JList elements)]]),
            (''isVisible'', JBool False)]]),
       (''separator'', JBool True),
       (''spacing'', JStr ''Small'')]"

subsection \<open>The activity\<close>

text \<open>
  \<open>Activity\<close> and \<open>CardFactory.adaptive_card\<close> belong to the bot framework: an
  activity has a type, a text and optional attachments, and an adaptive card is an
  attachment with the card's content type.
\<close>

record card_attachment =
  content_type :: string
  card_content :: json

record Activity =
  activity_type :: string
  activity_text :: string
  activity_attachments :: "card_attachment list option"

definition adaptive_card :: "json \<Rightarrow> card_attachment" where
  "adaptive_card c =
     \<lparr>content_type = ''application/vnd.microsoft.card.adaptive'', card_content = c\<rparr>"

text \<open>
  The loop of \<open>get_activity_card\<close> over \<open>turn.attachments\<close>: the three lists
  \<open>citations\<close>, \<open>media\<close> and \<open>charts\<close> are passed along; an element that is no
  attachment is skipped; a citation or a chart that cannot be rendered ends the loop with
  its error.
\<close>

fun render_attachments ::
  "((string \<times> pyval) list \<Rightarrow> error + string) \<Rightarrow> pyval list
     \<Rightarrow> json list \<times> json list \<times> json list
     \<Rightarrow> error + (json list \<times> json list \<times> json list)" where
  "render_attachments json_dumps [] buckets = Inr buckets"
| "render_attachments json_dumps (PCitation c # rest) (citations, media, charts) =
     (case get_citations_element json_dumps c of
        Inl e \<Rightarrow> Inl e
      | Inr element \<Rightarrow>
          render_attachments json_dumps rest (citations @ [element], media, charts))"
| "render_attachments json_dumps (PMedia m # rest) (citations, media, charts) =
     render_attachments json_dumps rest (citations, media @ [get_media_element m], charts)"
| "render_attachments json_dumps (PChart ch # rest) (citations, media, charts) =
     (case get_chart_card ch of
        Inl e \<Rightarrow> Inl e
      | Inr element \<Rightarrow>
          render_attachments json_dumps rest (citations, media, charts @ [element]))"
| "render_attachments json_dumps (_ # rest) buckets = render_attachments json_dumps rest buckets"

definition attachments_body :: "json list \<Rightarrow> json list \<Rightarrow> json list \<Rightarrow> json list" where
  "attachments_body citations media charts =
     (if citations \<noteq> [] then [get_expandable_block ''Citations'' ''Citations'' citations] else [])
     @ (if media \<noteq> [] then [get_expandable_block ''Media'' ''Media Attachments'' media] else [])
     @ (if charts \<noteq> [] then [get_expandable_block ''Charts'' ''Charts'' charts] else [])"

definition attachments_card :: "json list \<Rightarrow> json" where
  "attachments_card body =
     JObj [(''type'', JStr ''AdaptiveCard''),
           (''body'', JList body),
           (''$schema'', JStr ''http://adaptivecards.io/schemas/adaptive-card.json''),
           (''fallbackText'',
              JStr ''This card requires Adaptive Cards v1.2 support to be rendered properly.'')]"

definition get_activity_card ::
  "((string \<times> pyval) list \<Rightarrow> error + string) \<Rightarrow> ConversationTurn \<Rightarrow> error + Activity" where
  "get_activity_card json_dumps turn =
     (case render_attachments json_dumps (attachments turn) ([], [], []) of
        Inl e \<Rightarrow> Inl e
      | Inr (citations, media, charts) \<Rightarrow>
          Inr \<lparr>activity_type = ''message'',
               activity_text = content turn,
               activity_attachments =
                 (if citations \<noteq> [] \<or> media \<noteq> [] \<or> charts \<noteq> []
                  then Some [adaptive_card
                               (attachments_card (attachments_body citations media charts))]
                  else None)\<rparr>)"

section \<open>Tools and agents\<close>

subsection \<open>Tools (\<open>tools/__init__.py\<close>, \<open>tools/math_tools.py\<close>)\<close>

text \<open>
  \<open>AbstractTool\<close>: a name, a description and the callable. The callable is applied as
  \<open>tool.function(*args, **kwargs)\<close>, so it takes the positional and the keyword
  arguments, and returns a value or raises.
\<close>

record tool =
  name :: string
  description :: string
  tool_function :: "pyval list \<Rightarrow> (string \<times> pyval) list \<Rightarrow> error + pyval"

text \<open>
  Python's \<open>+\<close> on the values of the model: integers (a \<open>bool\<close> is an integer),
  and the concatenation of strings, lists and tuples; other operands raise
  \<open>TypeError\<close>.
\<close>

definition py_add :: "pyval \<Rightarrow> pyval \<Rightarrow> error + pyval" where
  "py_add x y =
     (case (x, y) of
        (PInt a, PInt b) \<Rightarrow> Inr (PInt (a + b))
      | (PInt a, PBool b) \<Rightarrow> Inr (PInt (a + of_bool b))
      | (PBool a, PInt b) \<Rightarrow> Inr (PInt (of_bool a + b))
      | (PBool a, PBool b) \<Rightarrow> Inr (PInt (of_bool a + of_bool b))
      | (PStr a, PStr b) \<Rightarrow> Inr (PStr (a @ b))
      | (PList a, PList b) \<Rightarrow> Inr (PList (a @ b))
      | (PTuple a, PTuple b) \<Rightarrow> Inr (PTuple (a @ b))
      | _ \<Rightarrow> Inl (TypeError ''unsupported operand type(s) for +''))"

text \<open>
  Calling \<open>lambda x, y: ...\<close> with \<open>*args, **kwargs\<close>: the positional arguments
  fill \<open>x\<close> then \<open>y\<close>, the keyword arguments fill the rest by name; a missing,
  surplus, unknown or doubly given argument raises \<open>TypeError\<close>.
\<close>

definition call_x_y ::
  "(pyval \<Rightarrow> pyval \<Rightarrow> error + pyval) \<Rightarrow> pyval list \<Rightarrow> (string \<times> pyval) list \<Rightarrow> error + pyval" where
  "call_x_y body positional keywords =
     (if list_all (\<lambda>k. k = ''x'' \<or> k = ''y'') (map fst keywords)
      then (case (positional, map_of keywords ''x'', map_of keywords ''y'') of
              ([a, b], None, None) \<Rightarrow> body a b
            | ([a], None, Some b) \<Rightarrow> body a b
            | ([], Some a, Some b) \<Rightarrow> body a b
            | _ \<Rightarrow> Inl (TypeError ''<lambda>() arguments do not match (x, y)''))
      else Inl (TypeError ''<lambda>() got an unexpected keyword argument''))"

text \<open>\<open>AddTool()\<close>, with its default name and description.\<close>

definition AddTool :: tool where
  "AddTool = \<lparr>name = ''Add'', description = ''Add two numbers, such as 6+3'',
              tool_function = call_x_y py_add\<rparr>"

subsection \<open>Agents (\<open>agents/abstract_agent.py\<close>)\<close>

text \<open>
  \<open>AbstractAgent\<close>. \<open>_tools\<close> is the dictionary the constructor was given
  (documented as the dictionary of tool names and their tools); \<open>add_tool\<close> looks the
  tool's name up among its keys.
\<close>

record agent =
  agent_id :: string
  agent_name :: string
  agent_description :: string
  agent_prompt :: string
  agent_tools :: "string \<rightharpoonup> tool"
  agent_settings :: "(string \<times> pyval) list"



section \<open>The instrumented tool function and \<open>process\<close> (\<open>agents/chat_completion_agent.py\<close>)\<close>

subsection \<open>The state a call runs in\<close>

text \<open>
  \<open>agent_invoke_context\<close> is a \<open>ContextVar\<close> without a default: it is unset
  (\<open>None\<close>) or bound to the dictionary with the keys \<open>"tool_usage"\<close> and
  \<open>"attachments"\<close>. \<open>set\<close> returns a token that remembers the binding it replaced,
  and \<open>reset(token)\<close> restores that binding. The other state is the clock:
  \<open>datetime.now()\<close> returns the next reading.
\<close>

record invoke_context =
  ctx_tool_usage :: "tool_usage list"
  ctx_attachments :: "pyval list"

record world =
  agent_invoke_context :: "invoke_context option"
  clock :: "nat \<Rightarrow> datetime"
  ticks :: nat

definition datetime_now :: "world \<Rightarrow> datetime \<times> world" where
  "datetime_now w = (clock w (ticks w), w\<lparr>ticks := Suc (ticks w)\<rparr>)"

subsection \<open>The wrapper around a tool\<close>

text \<open>
  \<open>new_plugin_func\<close>, the function \<open>_build_func\<close> returns for a tool (the tracing span
  around it records and changes nothing else). A failure of the tool's callable leaves the
  function at once; \<open>agent_invoke_context.get()\<close> raises \<open>LookupError\<close> when the
  variable is unset.
\<close>

definition new_plugin_func ::
  "tool \<Rightarrow> pyval list \<Rightarrow> (string \<times> pyval) list \<Rightarrow> world \<Rightarrow> (error + pyval) \<times> world" where
  "new_plugin_func t positional keywords w =
     (let (started, w1) = datetime_now w
      in case tool_function t positional keywords of
           Inl e \<Rightarrow> (Inl e, w1)
         | Inr resp \<Rightarrow>
             (let (ended, w2) = datetime_now w1;
                  elapsed_time = datetime_sub ended started
              in case agent_invoke_context w2 of
                   None \<Rightarrow> (Inl LookupError, w2)
                 | Some ctx \<Rightarrow>
                     (let logged = ctx\<lparr>ctx_tool_usage := ctx_tool_usage ctx @
                            [\<lparr>tool_name = name t, args = positional, kwargs = keywords,
                              result = resp, start_time = started,
                              duration = microseconds elapsed_time\<rparr>]\<rparr>;
                          found = extract_attachments resp;
                          harvested =
                            (if found \<noteq> []
                             then logged\<lparr>ctx_attachments := ctx_attachments logged @ found\<rparr>
                             else logged)
                      in (Inr resp, w2\<lparr>agent_invoke_context := Some harvested\<rparr>))))"

subsection \<open>The completion service\<close>

text \<open>
  The service is given the chat history and the wrapped tools. What it does is its own
  affair, except that it reaches the program's state only through the wrapped tools: it
  answers, fails, or calls a wrapped tool and goes on from what the call returned or
  raised; its calls are taken one after the other. \<open>get_response\<close> runs such a
  behaviour.
\<close>

datatype blackbox =
    Reply string
  | Failure error
  | Invoke tool "pyval list" "(string \<times> pyval) list" "error + pyval \<Rightarrow> blackbox"

primrec get_response :: "blackbox \<Rightarrow> world \<Rightarrow> (error + string) \<times> world" where
  "get_response (Reply reply) w = (Inr reply, w)"
| "get_response (Failure e) w = (Inl e, w)"
| "get_response (Invoke t positional keywords continue) w =
     (let (returned, w1) = new_plugin_func t positional keywords w
      in get_response (continue returned) w1)"

datatype AuthorRole = SYSTEM | USER | ASSISTANT | TOOL

type_synonym ChatHistory = "(AuthorRole \<times> string) list"

text \<open>
  \<open>AbstractChatCompletionAgent\<close>: an agent with the completion agent built in the
  constructor, here the behaviour it shows for each chat history.
\<close>

record chat_agent = agent +
  completion :: "ChatHistory \<Rightarrow> blackbox"

subsection \<open>\<open>process\<close>\<close>

text \<open>
  The loop that fills the \<open>ChatHistory\<close> (lines 228 to 233): \<open>add_user_message\<close> for a
  turn whose role is \<open>"user"\<close>, \<open>add_assistant_message\<close> for every other turn.
\<close>

definition add_message :: "ChatHistory \<Rightarrow> ConversationTurn \<Rightarrow> ChatHistory" where
  "add_message chat message =
     (if role message = ''user''
      then chat @ [(USER, content message)]
      else chat @ [(ASSISTANT, content message)])"

definition chat_history :: "ConversationTurn list \<Rightarrow> ChatHistory" where
  "chat_history turns = foldl add_message [] turns"

text \<open>
  \<open>process\<close>. The context is set, the history translated and the service awaited; when
  the service raises, the exception leaves \<open>process\<close> from that line. Otherwise the
  context is read, the variable reset to the token, and the turn built.
\<close>

definition process ::
  "chat_agent \<Rightarrow> ConversationData \<Rightarrow> world \<Rightarrow> (error + ConversationTurn) \<times> world" where
  "process self conversation_data w =
     (let token = agent_invoke_context w;
          w1 = w\<lparr>agent_invoke_context := Some \<lparr>ctx_tool_usage = [], ctx_attachments = []\<rparr>\<rparr>;
          chat = chat_history (history conversation_data)
      in case get_response (completion self chat) w1 of
           (Inl e, w2) \<Rightarrow> (Inl e, w2)
         | (Inr response_content, w2) \<Rightarrow>
             (case agent_invoke_context w2 of
                None \<Rightarrow> (Inl LookupError, w2)
              | Some ctx \<Rightarrow>
                  (let w3 = w2\<lparr>agent_invoke_context := token\<rparr>;
                       (now, w4) = datetime_now w3
                   in (Inr \<lparr>role = ''assistant'',
                            content = response_content,
                            created_at = now,
                            metadata = [(''tool_usage'', ctx_tool_usage ctx)],
                            attachments = ctx_attachments ctx\<rparr>,
                       w4))))"

section \<open>Notions of the specification\<close>

text \<open>
  The definitions of this section are not functions of the program: they state, in the
  specification's words, what the program's functions are compared with.
\<close>

subsection \<open>Buckets of a turn's attachments\<close>

text \<open>The three chart classes the renderer knows.\<close>

fun known_chart_variant :: "chart \<Rightarrow> bool" where
  "known_chart_variant (VerticalBarChart i t d) = True"
| "known_chart_variant (LineChart i t d) = True"
| "known_chart_variant (PieChart i t d) = True"
| "known_chart_variant (Chart i t) = False"

text \<open>
  The citations, the media items and the charts of a list of attachments, each in the
  order in which they stand in the list.
\<close>

fun citations_of :: "pyval list \<Rightarrow> citation list" where
  "citations_of [] = []"
| "citations_of (PCitation c # vs) = c # citations_of vs"
| "citations_of (_ # vs) = citations_of vs"

fun media_of :: "pyval list \<Rightarrow> media list" where
  "media_of [] = []"
| "media_of (PMedia m # vs) = m # media_of vs"
| "media_of (_ # vs) = media_of vs"

fun charts_of :: "pyval list \<Rightarrow> chart list" where
  "charts_of [] = []"
| "charts_of (PChart ch # vs) = ch # charts_of vs"
| "charts_of (_ # vs) = charts_of vs"

text \<open>
  An element of \<open>turn.attachments\<close> that the renderer gets past: a chart of a known
  class, a citation whose metadata is empty or accepted by \<open>json.dumps\<close>, and
  everything that is no chart and no citation.
\<close>

fun renders :: "((string \<times> pyval) list \<Rightarrow> error + string) \<Rightarrow> pyval \<Rightarrow> bool" where
  "renders json_dumps (PChart ch) = known_chart_variant ch"
| "renders json_dumps (PCitation (Citation title url citation_content citation_metadata)) =
     (citation_metadata = [] \<or> \<not> isl (json_dumps citation_metadata))"
| "renders json_dumps _ = True"

subsection \<open>Reading a document\<close>

text \<open>
  A value inside a document is reached by a path of dictionary keys and list positions.
\<close>

datatype step = Key string | Index nat

fun at_path :: "step list \<Rightarrow> json \<Rightarrow> json option" where
  "at_path [] j = Some j"
| "at_path (Key k # path) (JObj kvs) =
     (case map_of kvs k of None \<Rightarrow> None | Some v \<Rightarrow> at_path path v)"
| "at_path (Index n # path) (JList vs) =
     (if n < length vs then at_path path (vs ! n) else None)"
| "at_path _ _ = None"

text \<open>
  A collapsible section that starts collapsed: a container whose first item is the header
  row, with the title as its first text and an action that toggles visibility, and whose
  second item is the content, invisible at first, with the elements of the section.
  \<open>collapsed_section\<close> reads the title and the elements of such a section.
\<close>

definition collapsed_section :: "json \<Rightarrow> (string \<times> json list) option" where
  "collapsed_section s =
     (case (at_path [Key ''items'', Index 0, Key ''columns'', Index 0, Key ''items'', Index 0,
                     Key ''text''] s,
            at_path [Key ''items'', Index 0, Key ''selectAction'', Key ''type''] s,
            at_path [Key ''items'', Index 1, Key ''isVisible''] s,
            at_path [Key ''items'', Index 1, Key ''items'', Index 0, Key ''items''] s) of
        (Some (JStr title), Some (JStr action), Some (JBool visible), Some (JList elements)) \<Rightarrow>
          if action = ''Action.ToggleVisibility'' \<and> \<not> visible
          then Some (title, elements) else None
      | _ \<Rightarrow> None)"

subsection \<open>What the completion service sees\<close>

text \<open>
  The name, arguments and result of a logged call; the calls a behaviour of the service
  makes whose callable returns, in order; and the answer it ends with. Both follow the
  behaviour along what the callables themselves return or raise.
\<close>

type_synonym tool_call = "string \<times> pyval list \<times> (string \<times> pyval) list \<times> pyval"

definition logged_call :: "tool_usage \<Rightarrow> tool_call" where
  "logged_call u = (tool_name u, args u, kwargs u, result u)"

primrec invocations :: "blackbox \<Rightarrow> tool_call list" where
  "invocations (Reply reply) = []"
| "invocations (Failure e) = []"
| "invocations (Invoke t positional keywords continue) =
     (case tool_function t positional keywords of
        Inl e \<Rightarrow> invocations (continue (Inl e))
      | Inr r \<Rightarrow> (name t, positional, keywords, r) # invocations (continue (Inr r)))"

primrec outcome :: "blackbox \<Rightarrow> error + string" where
  "outcome (Reply reply) = Inr reply"
| "outcome (Failure e) = Inl e"
| "outcome (Invoke t positional keywords continue) =
     outcome (continue (tool_function t positional keywords))"

section \<open>Sample values\<close>

text \<open>
  An agent with the tool \<open>Add\<close> whose service calls \<open>Add(x=2, y=3)\<close> once and answers
  from what the call returned; the same agent with a service that fails; a state in which
  no context is set and the clock advances by 1.5 seconds from reading to reading; a
  conversation of one user turn; a turn with attachments of every kind; an agent that has
  the tool \<open>Add\<close> registered under another key, as \<open>MathSemanticKernelAgent\<close> has its
  chart tools (\<open>"CreateLineChart": LineChartTool()\<close>, whose name is \<open>LineChart\<close>).
  \<open>json_dumps_sample\<close> stands in for \<open>json.dumps\<close> where a closed term is needed: it
  gives the text of the one metadata dictionary of \<open>sample_turn\<close> and raises for
  every other argument, among them the dictionary of \<open>unserialisable_turn\<close>, whose
  value is a set.
\<close>

definition adding_agent :: chat_agent where
  "adding_agent = \<lparr>agent_id = ''math_semantic_kernel_agent'',
                    agent_name = ''Math Semantic Kernel Agent'',
                    agent_description = ''A Semantic Kernel Agent that can help you with math problems'',
                    agent_prompt = ''You can solve math problems'',
                    agent_tools = [''Add'' \<mapsto> AddTool],
                    agent_settings = [],
                    completion = (\<lambda>chat.
                       Invoke AddTool [] [(''x'', PInt 2), (''y'', PInt 3)]
                         (\<lambda>returned. if returned = Inr (PInt 5)
                                     then Reply ''2 + 3 = 5''
                                     else Reply ''I could not add the numbers.''))\<rparr>"

definition idle_world :: world where
  "idle_world = \<lparr>agent_invoke_context = None, clock = (\<lambda>n. 1500000 * int n), ticks = 0\<rparr>"

definition user_turn :: "string \<Rightarrow> ConversationTurn" where
  "user_turn s = \<lparr>role = ''user'', content = s, created_at = 0, metadata = [], attachments = []\<rparr>"

definition failing_agent :: chat_agent where
  "failing_agent =
     adding_agent\<lparr>completion := (\<lambda>chat. Failure (ServiceError ''request timed out''))\<rparr>"

definition sample_conversation :: ConversationData where
  "sample_conversation =
     \<lparr>thread_id = None, history = [user_turn ''What is 2 + 3?''], max_turns = 10\<rparr>"

definition sample_turn :: ConversationTurn where
  "sample_turn =
     \<lparr>role = ''assistant'', content = ''Here is what I found.'', created_at = 0,
      metadata = [(''tool_usage'', [])],
      attachments =
        [PMedia (Media ''https://www.youtube.com/watch?v=YsqcODOEO-M'' ''video/mp4'' None),
         PCitation (Citation ''Harry Potter'' ''https://harrypotter.fandom.com/wiki/Harry_Potter''
                      [] [(''house'', PStr ''Gryffindor'')]),
         PChart (VerticalBarChart ''c1'' ''Sales'' []),
         PCitation (Citation ''Ron Weasley'' ''https://harrypotter.fandom.com/wiki/Ron_Weasley''
                      [] [])]\<rparr>"

definition unknown_chart_turn :: ConversationTurn where
  "unknown_chart_turn =
     \<lparr>role = ''assistant'', content = ''Here is the chart.'', created_at = 0,
      metadata = [(''tool_usage'', [])],
      attachments = [PChart (Chart ''c1'' ''Sales'')]\<rparr>"

definition unserialisable_turn :: ConversationTurn where
  "unserialisable_turn =
     \<lparr>role = ''assistant'', content = ''Here is what I found.'', created_at = 0,
      metadata = [(''tool_usage'', [])],
      attachments =
        [PCitation (Citation ''Harry Potter'' ''https://harrypotter.fandom.com/wiki/Harry_Potter''
                      [] [(''tags'', PSet [PStr ''wizard''])])]\<rparr>"

definition json_dumps_sample :: "(string \<times> pyval) list \<Rightarrow> error + string" where
  "json_dumps_sample d =
     (if d = [(''house'', PStr ''Gryffindor'')]
      then Inr (''{'' @ [CHR 0x22] @ ''house'' @ [CHR 0x22] @ '': ''
                  @ [CHR 0x22] @ ''Gryffindor'' @ [CHR 0x22] @ ''}'')
      else Inl (TypeError ''Object of type set is not JSON serializable''))"


section \<open>Harvesting\<close>

lemma fold_collect_append:
  assumes "\<And>x acc. x \<in> set xs \<Longrightarrow> collect x acc = acc @ collect x []"
  shows "fold collect xs acc = acc @ concat (map (\<lambda>x. collect x []) xs)"
  using assms
proof (induction xs arbitrary: acc)
  case Nil
  then show ?case by simp
next
  case (Cons x xs)
  have step: "collect x acc = acc @ collect x []"
    by (rule Cons.prems) simp
  have "fold collect xs (collect x acc) = collect x acc @ concat (map (\<lambda>x. collect x []) xs)"
    by (rule Cons.IH) (rule Cons.prems, simp)
  then show ?case
    by (simp add: step)
qed

lemma collect_append: "collect v acc = acc @ collect v []"
proof (induction v acc rule: collect.induct)
  case (4 items attachments)
  have "fold collect items attachments = attachments @ concat (map (\<lambda>x. collect x []) items)"
    by (rule fold_collect_append) (rule 4)
  moreover have "fold collect items [] = [] @ concat (map (\<lambda>x. collect x []) items)"
    by (rule fold_collect_append) (rule 4)
  ultimately show ?case by simp
next
  case (5 items attachments)
  have "fold collect items attachments = attachments @ concat (map (\<lambda>x. collect x []) items)"
    by (rule fold_collect_append) (rule 5)
  moreover have "fold collect items [] = [] @ concat (map (\<lambda>x. collect x []) items)"
    by (rule fold_collect_append) (rule 5)
  ultimately show ?case by simp
next
  case (6 items attachments)
  have "fold collect items attachments = attachments @ concat (map (\<lambda>x. collect x []) items)"
    by (rule fold_collect_append) (rule 6)
  moreover have "fold collect items [] = [] @ concat (map (\<lambda>x. collect x []) items)"
    by (rule fold_collect_append) (rule 6)
  ultimately show ?case by simp
next
  case (7 kvs attachments)
  have "fold collect (map snd kvs) attachments
          = attachments @ concat (map (\<lambda>x. collect x []) (map snd kvs))"
    by (rule fold_collect_append) (rule 7)
  moreover have "fold collect (map snd kvs) []
          = [] @ concat (map (\<lambda>x. collect x []) (map snd kvs))"
    by (rule fold_collect_append) (rule 7)
  ultimately show ?case by simp
qed simp_all

lemma fold_collect_concat:
  "fold collect xs [] = concat (map extract_attachments xs)"
proof -
  have "fold collect xs [] = [] @ concat (map (\<lambda>x. collect x []) xs)"
    by (rule fold_collect_append) (rule collect_append)
  then show ?thesis
    unfolding extract_attachments_def by simp
qed

lemma extract_attachments_containers:
  "extract_attachments (PList xs) = concat (map extract_attachments xs)"
  "extract_attachments (PTuple xs) = concat (map extract_attachments xs)"
  "extract_attachments (PSet xs) = concat (map extract_attachments xs)"
  "extract_attachments (PDict kvs) = concat (map extract_attachments (map snd kvs))"
  using fold_collect_concat[of xs] fold_collect_concat[of "map snd kvs"]
  by (simp_all add: extract_attachments_def)

lemma fold_collect_only_attachments:
  assumes "\<And>x acc. x \<in> set xs \<Longrightarrow> list_all is_attachment acc
             \<Longrightarrow> list_all is_attachment (collect x acc)"
    and "list_all is_attachment acc"
  shows "list_all is_attachment (fold collect xs acc)"
  using assms
proof (induction xs arbitrary: acc)
  case Nil
  then show ?case by simp
next
  case (Cons x xs)
  have "list_all is_attachment (collect x acc)"
    by (rule Cons.prems(1)) (simp_all add: Cons.prems(2))
  then have "list_all is_attachment (fold collect xs (collect x acc))"
    by (rule Cons.IH[rotated]) (rule Cons.prems(1), simp_all)
  then show ?case by simp
qed

lemma collect_only_attachments:
  "list_all is_attachment acc \<Longrightarrow> list_all is_attachment (collect v acc)"
proof (induction v acc rule: collect.induct)
  case (4 items attachments)
  show ?case
    unfolding collect.simps
    by (rule fold_collect_only_attachments) (rule 4(1), simp_all add: 4(2))
next
  case (5 items attachments)
  show ?case
    unfolding collect.simps
    by (rule fold_collect_only_attachments) (rule 5(1), simp_all add: 5(2))
next
  case (6 items attachments)
  show ?case
    unfolding collect.simps
    by (rule fold_collect_only_attachments) (rule 6(1), simp_all add: 6(2))
next
  case (7 kvs attachments)
  show ?case
    unfolding collect.simps
    by (rule fold_collect_only_attachments) (rule 7(1), simp_all add: 7(2))
qed simp_all

lemma extract_attachments_only_attachments:
  "list_all is_attachment (extract_attachments v)"
  unfolding extract_attachments_def by (rule collect_only_attachments) simp

text \<open>
  C1. The harvester returns the attachments of a value in pre-order, without
  deduplication: an attachment (a citation, a media item, a chart of any class) yields
  itself; a list, a tuple and a set yield what their elements yield, in iteration order; a
  dictionary yields what its values yield, whatever its keys are; any other value yields
  nothing; a value that occurs twice is harvested twice. Nothing but attachments is
  returned.
\<close>

theorem extract_attachments_preorder:
  "extract_attachments (PCitation c) = [PCitation c]
   \<and> extract_attachments (PMedia m) = [PMedia m]
   \<and> extract_attachments (PChart ch) = [PChart ch]
   \<and> extract_attachments (PList xs) = concat (map extract_attachments xs)
   \<and> extract_attachments (PTuple xs) = concat (map extract_attachments xs)
   \<and> extract_attachments (PSet xs) = concat (map extract_attachments xs)
   \<and> extract_attachments (PDict kvs) = concat (map extract_attachments (map snd kvs))
   \<and> extract_attachments PNone = []
   \<and> extract_attachments (PBool b) = []
   \<and> extract_attachments (PInt i) = []
   \<and> extract_attachments (PStr s) = []
   \<and> extract_attachments (PObject l) = []
   \<and> extract_attachments (PList [v, v]) = extract_attachments v @ extract_attachments v
   \<and> list_all is_attachment (extract_attachments v)"
proof -
  have leaves:
    "extract_attachments (PCitation c) = [PCitation c]"
    "extract_attachments (PMedia m) = [PMedia m]"
    "extract_attachments (PChart ch) = [PChart ch]"
    "extract_attachments PNone = []"
    "extract_attachments (PBool b) = []"
    "extract_attachments (PInt i) = []"
    "extract_attachments (PStr s) = []"
    "extract_attachments (PObject l) = []"
    by (simp_all add: extract_attachments_def)
  have twice: "extract_attachments (PList [v, v]) = extract_attachments v @ extract_attachments v"
    by (simp add: extract_attachments_containers)
  show ?thesis
    using leaves twice extract_attachments_containers
      extract_attachments_only_attachments[of v]
    by blast
qed

section \<open>Rendering\<close>

text \<open>
  C9. Rendering a chart raises \<open>ValueError("Unsupported chart type")\<close> exactly when the
  chart is none of the three known classes. For each known class it returns the chart
  block with the chart's id, the type of the class, the title and the serialised data.
\<close>

theorem get_chart_card_variants:
  "(get_chart_card ch = Inl (ValueError ''Unsupported chart type'')) = (\<not> known_chart_variant ch)
   \<and> (\<exists>element. get_chart_card ch = Inr element) = known_chart_variant ch
   \<and> get_chart_card (VerticalBarChart i t bars) =
       Inr (JObj [(''id'', JStr i), (''type'', JStr ''Chart.VerticalBar''), (''title'', JStr t),
                  (''data'', JList (map VerticalBarChartDataValue_model_dump bars))])
   \<and> get_chart_card (LineChart i t lines) =
       Inr (JObj [(''id'', JStr i), (''type'', JStr ''Chart.Line''), (''title'', JStr t),
                  (''data'', JList (map LineChartData_model_dump lines))])
   \<and> get_chart_card (PieChart i t slices) =
       Inr (JObj [(''id'', JStr i), (''type'', JStr ''Chart.Pie''), (''title'', JStr t),
                  (''data'', JList (map PieChartData_model_dump slices))])"
  by (cases ch) (simp_all add: chart_card_def)

lemma collapsed_section_block:
  "collapsed_section (get_expandable_block i t els) = Some (t, els)"
  by (simp add: collapsed_section_def get_expandable_block_def)

lemma body_of_card: "at_path [Key ''body''] (attachments_card b) = Some (JList b)"
  by (simp add: attachments_card_def)

lemma sections_of_body:
  "map collapsed_section (attachments_body cs ms chs) =
     map Some (filter (\<lambda>(t, els). els \<noteq> [])
       [(''Citations'', cs), (''Media Attachments'', ms), (''Charts'', chs)])"
  by (simp add: attachments_body_def collapsed_section_block)

lemma body_empty:
  "(attachments_body cs ms chs = []) = (cs = [] \<and> ms = [] \<and> chs = [])"
  by (simp add: attachments_body_def)

lemma get_chart_card_known:
  "known_chart_variant ch \<Longrightarrow> \<exists>element. get_chart_card ch = Inr element"
  by (cases ch) simp_all

lemma get_chart_card_unknown:
  "\<not> known_chart_variant ch \<Longrightarrow> get_chart_card ch = Inl (ValueError ''Unsupported chart type'')"
  by (cases ch) simp_all

lemma get_citations_element_renders:
  "renders jd (PCitation c) \<Longrightarrow> \<exists>element. get_citations_element jd c = Inr element"
  by (cases c) (auto split: sum.splits)

lemma get_citations_element_fails:
  "\<not> renders jd (PCitation c) \<Longrightarrow> \<exists>e. get_citations_element jd c = Inl e"
  by (cases c) (auto split: sum.splits)

lemma render_attachments_buckets:
  assumes "list_all (renders jd) vs"
  shows "\<exists>cs chs. map (get_citations_element jd) (citations_of vs) = map Inr cs
          \<and> map get_chart_card (charts_of vs) = map Inr chs
          \<and> render_attachments jd vs (citations, media, charts) =
              Inr (citations @ cs, media @ map get_media_element (media_of vs), charts @ chs)"
  using assms
proof (induction vs arbitrary: citations media charts)
  case Nil
  then show ?case by simp
next
  case (Cons v vs)
  then have rest: "list_all (renders jd) vs" and head: "renders jd v"
    by simp_all
  show ?case
  proof (cases v)
    case (PCitation c)
    with head obtain element where el: "get_citations_element jd c = Inr element"
      using get_citations_element_renders by blast
    from Cons.IH[OF rest, of "citations @ [element]" media charts]
    obtain cs chs where
      "map (get_citations_element jd) (citations_of vs) = map Inr cs"
      "map get_chart_card (charts_of vs) = map Inr chs"
      "render_attachments jd vs (citations @ [element], media, charts) =
         Inr ((citations @ [element]) @ cs, media @ map get_media_element (media_of vs),
              charts @ chs)"
      by blast
    then have "map (get_citations_element jd) (citations_of (v # vs)) = map Inr (element # cs)
      \<and> map get_chart_card (charts_of (v # vs)) = map Inr chs
      \<and> render_attachments jd (v # vs) (citations, media, charts) =
         Inr (citations @ (element # cs), media @ map get_media_element (media_of (v # vs)),
              charts @ chs)"
      using PCitation el by simp
    then show ?thesis by blast
  next
    case (PMedia m)
    from Cons.IH[OF rest, of citations "media @ [get_media_element m]" charts]
    show ?thesis using PMedia by simp
  next
    case (PChart ch)
    with head obtain element where el: "get_chart_card ch = Inr element"
      using get_chart_card_known by auto
    from Cons.IH[OF rest, of citations media "charts @ [element]"]
    obtain cs chs where
      "map (get_citations_element jd) (citations_of vs) = map Inr cs"
      "map get_chart_card (charts_of vs) = map Inr chs"
      "render_attachments jd vs (citations, media, charts @ [element]) =
         Inr (citations @ cs, media @ map get_media_element (media_of vs),
              (charts @ [element]) @ chs)"
      by blast
    then have "map (get_citations_element jd) (citations_of (v # vs)) = map Inr cs
      \<and> map get_chart_card (charts_of (v # vs)) = map Inr (element # chs)
      \<and> render_attachments jd (v # vs) (citations, media, charts) =
         Inr (citations @ cs, media @ map get_media_element (media_of (v # vs)),
              charts @ (element # chs))"
      using PChart el by simp
    then show ?thesis by blast
  qed (use Cons.IH[OF rest, of citations media charts] in simp_all)
qed

lemma render_attachments_fails:
  assumes "\<not> list_all (renders jd) vs"
  shows "\<exists>e. render_attachments jd vs (citations, media, charts) = Inl e"
  using assms
proof (induction vs arbitrary: citations media charts)
  case Nil
  then show ?case by simp
next
  case (Cons v vs)
  show ?case
  proof (cases "renders jd v")
    case True
    with Cons.prems have rest: "\<not> list_all (renders jd) vs"
      by simp
    show ?thesis
    proof (cases v)
      case (PCitation c)
      with True obtain element where "get_citations_element jd c = Inr element"
        using get_citations_element_renders by blast
      with Cons.IH[OF rest, of "citations @ [element]" media charts] PCitation
      show ?thesis by simp
    next
      case (PMedia m)
      with Cons.IH[OF rest, of citations "media @ [get_media_element m]" charts]
      show ?thesis by simp
    next
      case (PChart ch)
      with True obtain element where "get_chart_card ch = Inr element"
        using get_chart_card_known by auto
      with Cons.IH[OF rest, of citations media "charts @ [element]"] PChart
      show ?thesis by simp
    qed (use Cons.IH[OF rest, of citations media charts] in simp_all)
  next
    case False
    show ?thesis
    proof (cases v)
      case (PCitation c)
      with False obtain e where "get_citations_element jd c = Inl e"
        using get_citations_element_fails by blast
      with PCitation show ?thesis by simp
    next
      case (PChart ch)
      with False have "get_chart_card ch = Inl (ValueError ''Unsupported chart type'')"
        using get_chart_card_unknown by simp
      with PChart show ?thesis by simp
    qed (use False in simp_all)
  qed
qed

lemma map_Inr_Nil: "map f xs = map Inr ys \<Longrightarrow> (ys = []) = (xs = [])"
  by (cases xs; cases ys) simp_all

text \<open>
  C3. For a turn all of whose attachments are rendered (every chart is of one of the three
  known classes, and \<open>json.dumps\<close> accepts the metadata of every citation that has
  any), rendering returns an activity that carries the turn's text. The citations, the
  media items and the charts of the turn go, each in their order in the turn, into one
  collapsible section per kind, under the titles \<open>Citations\<close>, \<open>Media Attachments\<close>
  and \<open>Charts\<close>; a kind without attachments has no section; when the turn has no
  attachment of any kind, and in particular none at all, the activity has no attachment
  container. For every other turn rendering raises and returns no activity.
\<close>

theorem get_activity_card_buckets:
  "(list_all (renders jd) (attachments turn) \<longrightarrow>
      (\<exists>cs chs doc.
          map (get_citations_element jd) (citations_of (attachments turn)) = map Inr cs
        \<and> map get_chart_card (charts_of (attachments turn)) = map Inr chs
        \<and> get_activity_card jd turn = Inr doc
        \<and> activity_type doc = ''message''
        \<and> activity_text doc = content turn
        \<and> (if citations_of (attachments turn) = [] \<and> media_of (attachments turn) = []
                \<and> charts_of (attachments turn) = []
            then activity_attachments doc = None
            else (\<exists>c body.
                    activity_attachments doc =
                      Some [\<lparr>content_type = ''application/vnd.microsoft.card.adaptive'',
                             card_content = c\<rparr>]
                  \<and> at_path [Key ''body''] c = Some (JList body)
                  \<and> map collapsed_section body =
                      map Some (filter (\<lambda>(title, elements). elements \<noteq> [])
                        [(''Citations'', cs),
                         (''Media Attachments'',
                            map get_media_element (media_of (attachments turn))),
                         (''Charts'', chs)])))))
   \<and> (\<not> list_all (renders jd) (attachments turn) \<longrightarrow>
        (\<exists>e. get_activity_card jd turn = Inl e))
   \<and> (attachments turn = [] \<longrightarrow>
        get_activity_card jd turn =
          Inr \<lparr>activity_type = ''message'', activity_text = content turn,
               activity_attachments = None\<rparr>)"
proof (intro conjI impI)
  assume ok: "list_all (renders jd) (attachments turn)"
  let ?ms = "map get_media_element (media_of (attachments turn))"
  from render_attachments_buckets[OF ok, of "[]" "[]" "[]"]
  obtain cs chs where
    cs: "map (get_citations_element jd) (citations_of (attachments turn)) = map Inr cs"
    and chs: "map get_chart_card (charts_of (attachments turn)) = map Inr chs"
    and run: "render_attachments jd (attachments turn) ([], [], []) = Inr (cs, ?ms, chs)"
    by auto
  have empty: "(cs = []) = (citations_of (attachments turn) = [])"
    "(chs = []) = (charts_of (attachments turn) = [])"
    using map_Inr_Nil[OF cs] map_Inr_Nil[OF chs] by simp_all
  let ?doc = "\<lparr>activity_type = ''message'', activity_text = content turn,
       activity_attachments =
         (if cs \<noteq> [] \<or> ?ms \<noteq> [] \<or> chs \<noteq> []
          then Some [adaptive_card (attachments_card (attachments_body cs ?ms chs))]
          else None)\<rparr>"
  have doc: "get_activity_card jd turn = Inr ?doc"
    by (simp add: get_activity_card_def run)
  have shape: "if citations_of (attachments turn) = [] \<and> media_of (attachments turn) = []
                \<and> charts_of (attachments turn) = []
            then activity_attachments ?doc = None
            else (\<exists>c body.
                    activity_attachments ?doc =
                      Some [\<lparr>content_type = ''application/vnd.microsoft.card.adaptive'',
                             card_content = c\<rparr>]
                  \<and> at_path [Key ''body''] c = Some (JList body)
                  \<and> map collapsed_section body =
                      map Some (filter (\<lambda>(title, elements). elements \<noteq> [])
                        [(''Citations'', cs), (''Media Attachments'', ?ms), (''Charts'', chs)]))"
  proof (cases "citations_of (attachments turn) = [] \<and> media_of (attachments turn) = []
                \<and> charts_of (attachments turn) = []")
    case True
    then show ?thesis using empty by simp
  next
    case False
    then have some: "cs \<noteq> [] \<or> ?ms \<noteq> [] \<or> chs \<noteq> []"
      using empty by auto
    have "activity_attachments ?doc =
        Some [\<lparr>content_type = ''application/vnd.microsoft.card.adaptive'',
               card_content = attachments_card (attachments_body cs ?ms chs)\<rparr>]"
      using some by (simp add: adaptive_card_def)
    moreover have "at_path [Key ''body''] (attachments_card (attachments_body cs ?ms chs))
        = Some (JList (attachments_body cs ?ms chs))"
      by (rule body_of_card)
    moreover note sections_of_body[of cs ?ms chs]
    ultimately show ?thesis
      using False by (simp only: if_False) blast
  qed
  show "\<exists>cs chs doc.
          map (get_citations_element jd) (citations_of (attachments turn)) = map Inr cs
        \<and> map get_chart_card (charts_of (attachments turn)) = map Inr chs
        \<and> get_activity_card jd turn = Inr doc
        \<and> activity_type doc = ''message''
        \<and> activity_text doc = content turn
        \<and> (if citations_of (attachments turn) = [] \<and> media_of (attachments turn) = []
                \<and> charts_of (attachments turn) = []
            then activity_attachments doc = None
            else (\<exists>c body.
                    activity_attachments doc =
                      Some [\<lparr>content_type = ''application/vnd.microsoft.card.adaptive'',
                             card_content = c\<rparr>]
                  \<and> at_path [Key ''body''] c = Some (JList body)
                  \<and> map collapsed_section body =
                      map Some (filter (\<lambda>(title, elements). elements \<noteq> [])
                        [(''Citations'', cs),
                         (''Media Attachments'',
                            map get_media_element (media_of (attachments turn))),
                         (''Charts'', chs)])))"
    apply (rule exI[of _ cs], rule exI[of _ chs], rule exI[of _ ?doc])
    using cs chs doc shape by simp
next
  assume "\<not> list_all (renders jd) (attachments turn)"
  from render_attachments_fails[OF this, of "[]" "[]" "[]"]
  show "\<exists>e. get_activity_card jd turn = Inl e"
    by (auto simp: get_activity_card_def)
next
  assume "attachments turn = []"
  then show "get_activity_card jd turn =
          Inr \<lparr>activity_type = ''message'', activity_text = content turn,
               activity_attachments = None\<rparr>"
    by (simp add: get_activity_card_def)
qed

theorem get_activity_card_buckets_witness:
  "list_all (renders json_dumps_sample) (attachments sample_turn)
   \<and> (\<exists>cs chs doc c body.
          map (get_citations_element json_dumps_sample) (citations_of (attachments sample_turn))
            = map Inr cs
        \<and> map get_chart_card (charts_of (attachments sample_turn)) = map Inr chs
        \<and> get_activity_card json_dumps_sample sample_turn = Inr doc
        \<and> activity_text doc = ''Here is what I found.''
        \<and> activity_attachments doc =
             Some [\<lparr>content_type = ''application/vnd.microsoft.card.adaptive'',
                    card_content = c\<rparr>]
        \<and> at_path [Key ''body''] c = Some (JList body)
        \<and> map collapsed_section body =
             [Some (''Citations'', cs),
              Some (''Media Attachments'',
                    [get_media_element
                       (Media ''https://www.youtube.com/watch?v=YsqcODOEO-M'' ''video/mp4'' None)]),
              Some (''Charts'', chs)])
   \<and> \<not> list_all (renders json_dumps_sample) (attachments unknown_chart_turn)
   \<and> (\<exists>e. get_activity_card json_dumps_sample unknown_chart_turn = Inl e)
   \<and> attachments (user_turn ''What is 2 + 3?'') = []
   \<and> get_activity_card json_dumps_sample (user_turn ''What is 2 + 3?'') =
        Inr \<lparr>activity_type = ''message'', activity_text = ''What is 2 + 3?'',
             activity_attachments = None\<rparr>"
proof -
  have ok: "list_all (renders json_dumps_sample) (attachments sample_turn)"
    by (simp add: sample_turn_def json_dumps_sample_def)
  have bad: "\<not> list_all (renders json_dumps_sample) (attachments unknown_chart_turn)"
    by (simp add: unknown_chart_turn_def)
  have none: "attachments (user_turn ''What is 2 + 3?'') = []"
    by (simp add: user_turn_def)
  from get_activity_card_buckets[of json_dumps_sample sample_turn] ok
  obtain cs chs doc where
    cs: "map (get_citations_element json_dumps_sample) (citations_of (attachments sample_turn))
            = map Inr cs"
    and chs: "map get_chart_card (charts_of (attachments sample_turn)) = map Inr chs"
    and doc: "get_activity_card json_dumps_sample sample_turn = Inr doc"
      "activity_text doc = content sample_turn"
    and shape: "if citations_of (attachments sample_turn) = []
                \<and> media_of (attachments sample_turn) = []
                \<and> charts_of (attachments sample_turn) = []
            then activity_attachments doc = None
            else (\<exists>c body.
                    activity_attachments doc =
                      Some [\<lparr>content_type = ''application/vnd.microsoft.card.adaptive'',
                             card_content = c\<rparr>]
                  \<and> at_path [Key ''body''] c = Some (JList body)
                  \<and> map collapsed_section body =
                      map Some (filter (\<lambda>(title, elements). elements \<noteq> [])
                        [(''Citations'', cs),
                         (''Media Attachments'',
                            map get_media_element (media_of (attachments sample_turn))),
                         (''Charts'', chs)]))"
    by blast
  have "length cs = 2" "length chs = 1"
    using arg_cong[OF cs, of length] arg_cong[OF chs, of length]
    by (simp_all add: sample_turn_def)
  then have nonempty: "cs \<noteq> []" "chs \<noteq> []"
    by auto
  from shape nonempty obtain c body where
    "activity_attachments doc =
       Some [\<lparr>content_type = ''application/vnd.microsoft.card.adaptive'', card_content = c\<rparr>]"
    "at_path [Key ''body''] c = Some (JList body)"
    "map collapsed_section body =
       [Some (''Citations'', cs),
        Some (''Media Attachments'',
              [get_media_element
                 (Media ''https://www.youtube.com/watch?v=YsqcODOEO-M'' ''video/mp4'' None)]),
        Some (''Charts'', chs)]"
    by (auto simp: sample_turn_def)
  with cs chs doc have first: "\<exists>cs chs doc c body.
          map (get_citations_element json_dumps_sample) (citations_of (attachments sample_turn))
            = map Inr cs
        \<and> map get_chart_card (charts_of (attachments sample_turn)) = map Inr chs
        \<and> get_activity_card json_dumps_sample sample_turn = Inr doc
        \<and> activity_text doc = ''Here is what I found.''
        \<and> activity_attachments doc =
             Some [\<lparr>content_type = ''application/vnd.microsoft.card.adaptive'',
                    card_content = c\<rparr>]
        \<and> at_path [Key ''body''] c = Some (JList body)
        \<and> map collapsed_section body =
             [Some (''Citations'', cs),
              Some (''Media Attachments'',
                    [get_media_element
                       (Media ''https://www.youtube.com/watch?v=YsqcODOEO-M'' ''video/mp4'' None)]),
              Some (''Charts'', chs)]"
    by (auto simp: sample_turn_def)
  have second: "\<exists>e. get_activity_card json_dumps_sample unknown_chart_turn = Inl e"
    using get_activity_card_buckets[of json_dumps_sample unknown_chart_turn] bad by blast
  have third: "get_activity_card json_dumps_sample (user_turn ''What is 2 + 3?'') =
        Inr \<lparr>activity_type = ''message'', activity_text = ''What is 2 + 3?'',
             activity_attachments = None\<rparr>"
    using get_activity_card_buckets[of json_dumps_sample "user_turn ''What is 2 + 3?''"] none
    by (simp add: user_turn_def)
  show ?thesis
    using ok first bad second none third by blast
qed

text \<open>
  Counterexample to C3 as it is stated for every turn: a turn that holds a \<open>Chart\<close> which
  is none of the three subclasses, and a turn with a citation whose metadata holds a set,
  are not rendered at all; \<open>get_activity_card\<close> raises and the text is carried nowhere.
\<close>

theorem get_activity_card_no_document:
  "get_activity_card json_dumps_sample unknown_chart_turn
     = Inl (ValueError ''Unsupported chart type'')
   \<and> content unknown_chart_turn = ''Here is the chart.''
   \<and> get_activity_card json_dumps_sample unserialisable_turn
     = Inl (TypeError ''Object of type set is not JSON serializable'')"
  by (simp add: get_activity_card_def unknown_chart_turn_def unserialisable_turn_def
      json_dumps_sample_def)

section \<open>The history bound\<close>

text \<open>
  C4. With \<open>max_turns = 3\<close>, adding five turns to an empty history leaves the last two:
  the third addition already brings the length to \<open>max_turns\<close> and evicts the oldest
  turn, so the history never holds more than two turns after an addition, and the
  result is not the last three turns.
\<close>

theorem add_turn_five_turns:
  "history (foldl add_turn \<lparr>thread_id = tid, history = [], max_turns = 3\<rparr> [T1, T2, T3, T4, T5])
     = [T4, T5]
   \<and> history (foldl add_turn \<lparr>thread_id = tid, history = [], max_turns = 3\<rparr> [T1, T2, T3, T4, T5])
     \<noteq> [T3, T4, T5]"
  by (simp add: add_turn_def)

section \<open>Registering tools\<close>




section \<open>Tool calls within \<open>process\<close>\<close>

lemma new_plugin_func_returns:
  assumes "tool_function t a k = Inr r" and "agent_invoke_context w = Some ctx"
  shows "new_plugin_func t a k w =
    (Inr r,
     w\<lparr>ticks := Suc (Suc (ticks w)),
       agent_invoke_context := Some
        \<lparr>ctx_tool_usage = ctx_tool_usage ctx @
            [\<lparr>tool_name = name t, args = a, kwargs = k, result = r,
              start_time = clock w (ticks w),
              duration = (clock w (Suc (ticks w)) - clock w (ticks w)) mod 1000000\<rparr>],
         ctx_attachments = ctx_attachments ctx @ extract_attachments r\<rparr>\<rparr>)"
  using assms
  by (simp add: new_plugin_func_def datetime_now_def datetime_sub_def Let_def mod_mod_cancel)

lemma new_plugin_func_raises:
  assumes "tool_function t a k = Inl e"
  shows "new_plugin_func t a k w = (Inl e, w\<lparr>ticks := Suc (ticks w)\<rparr>)"
  using assms by (simp add: new_plugin_func_def datetime_now_def)

lemma get_response_log:
  assumes "agent_invoke_context w = Some ctx"
  shows "fst (get_response bb w) = outcome bb
    \<and> (\<exists>us. map logged_call us = invocations bb
          \<and> agent_invoke_context (snd (get_response bb w)) =
              Some \<lparr>ctx_tool_usage = ctx_tool_usage ctx @ us,
                    ctx_attachments =
                      ctx_attachments ctx @ concat (map extract_attachments (map result us))\<rparr>)"
  using assms
proof (induction bb arbitrary: w ctx)
  case (Reply reply)
  then show ?case by simp
next
  case (Failure e)
  then show ?case by simp
next
  case (Invoke t a k continue)
  show ?case
  proof (cases "tool_function t a k")
    case (Inl e)
    let ?w1 = "w\<lparr>ticks := Suc (ticks w)\<rparr>"
    have run: "get_response (Invoke t a k continue) w = get_response (continue (Inl e)) ?w1"
      by (simp add: new_plugin_func_raises[OF Inl])
    have "agent_invoke_context ?w1 = Some ctx"
      using Invoke.prems by simp
    from Invoke.IH[OF rangeI this, of "Inl e"] show ?thesis
      unfolding run using Inl by simp
  next
    case (Inr r)
    let ?u = "\<lparr>tool_name = name t, args = a, kwargs = k, result = r,
               start_time = clock w (ticks w),
               duration = (clock w (Suc (ticks w)) - clock w (ticks w)) mod 1000000\<rparr>"
    let ?ctx1 = "\<lparr>ctx_tool_usage = ctx_tool_usage ctx @ [?u],
                  ctx_attachments = ctx_attachments ctx @ extract_attachments r\<rparr>"
    let ?w1 = "w\<lparr>ticks := Suc (Suc (ticks w)), agent_invoke_context := Some ?ctx1\<rparr>"
    have run: "get_response (Invoke t a k continue) w = get_response (continue (Inr r)) ?w1"
      by (simp add: new_plugin_func_returns[OF Inr Invoke.prems])
    have "agent_invoke_context ?w1 = Some ?ctx1"
      by simp
    from Invoke.IH[OF rangeI this, of "Inr r"]
    obtain us where us: "fst (get_response (continue (Inr r)) ?w1) = outcome (continue (Inr r))"
      "map logged_call us = invocations (continue (Inr r))"
      "agent_invoke_context (snd (get_response (continue (Inr r)) ?w1)) =
         Some \<lparr>ctx_tool_usage = ctx_tool_usage ?ctx1 @ us,
               ctx_attachments =
                 ctx_attachments ?ctx1 @ concat (map extract_attachments (map result us))\<rparr>"
      by auto
    have "map logged_call (?u # us) = invocations (Invoke t a k continue)"
      using us(2) Inr by (simp add: logged_call_def)
    moreover have "agent_invoke_context (snd (get_response (Invoke t a k continue) w)) =
        Some \<lparr>ctx_tool_usage = ctx_tool_usage ctx @ (?u # us),
              ctx_attachments =
                ctx_attachments ctx @ concat (map extract_attachments (map result (?u # us)))\<rparr>"
      unfolding run using us(3) by simp
    moreover have "fst (get_response (Invoke t a k continue) w) = outcome (Invoke t a k continue)"
      unfolding run using us(1) Inr by simp
    ultimately show ?thesis by blast
  qed
qed

lemma process_log:
  assumes "outcome (completion self (chat_history (history cd))) = Inr reply"
  shows "\<exists>turn us. fst (process self cd w) = Inr turn
           \<and> role turn = ''assistant'' \<and> content turn = reply
           \<and> metadata turn = [(''tool_usage'', us)]
           \<and> map logged_call us = invocations (completion self (chat_history (history cd)))
           \<and> attachments turn = concat (map extract_attachments (map result us))"
proof -
  let ?bb = "completion self (chat_history (history cd))"
  let ?w1 = "w\<lparr>agent_invoke_context := Some \<lparr>ctx_tool_usage = [], ctx_attachments = []\<rparr>\<rparr>"
  have "agent_invoke_context ?w1 = Some \<lparr>ctx_tool_usage = [], ctx_attachments = []\<rparr>"
    by simp
  from get_response_log[OF this, of ?bb]
  obtain us where us: "fst (get_response ?bb ?w1) = outcome ?bb"
    "map logged_call us = invocations ?bb"
    "agent_invoke_context (snd (get_response ?bb ?w1)) =
       Some \<lparr>ctx_tool_usage = us,
             ctx_attachments = concat (map extract_attachments (map result us))\<rparr>"
    by auto
  obtain res w2 where run: "get_response ?bb ?w1 = (res, w2)"
    by (cases "get_response ?bb ?w1")
  have res: "res = Inr reply"
    using us(1) run assms by simp
  have ctx: "agent_invoke_context w2 =
       Some \<lparr>ctx_tool_usage = us,
             ctx_attachments = concat (map extract_attachments (map result us))\<rparr>"
    using us(3) run by simp
  have "fst (process self cd w) =
      Inr \<lparr>role = ''assistant'', content = reply, created_at = clock w2 (ticks w2),
           metadata = [(''tool_usage'', us)],
           attachments = concat (map extract_attachments (map result us))\<rparr>"
    by (simp add: process_def Let_def run res ctx datetime_now_def)
  then show ?thesis
    using us(2) by simp
qed

text \<open>
  C2. A call of a wrapped tool whose callable returns, made while a context is set (as it is
  throughout \<open>process\<close>), returns the callable's result unchanged and appends exactly one
  record to the context, holding the tool's name, the arguments and the result. Whenever
  the service ends with an answer, the turn \<open>process\<close> returns carries, under
  \<open>tool_usage\<close>, one record for each such call, in order. When the service calls
  \<open>Add\<close> with \<open>x=2, y=3\<close> once, the call returns 5 to the service and the turn's log is
  exactly one record, with the name \<open>Add\<close> and the result 5.
\<close>

theorem new_plugin_func_transparent:
  "(tool_function t a k = Inr r \<and> agent_invoke_context w = Some ctx \<longrightarrow>
      fst (new_plugin_func t a k w) = Inr r
      \<and> (\<exists>u. tool_name u = name t \<and> args u = a \<and> kwargs u = k \<and> result u = r
            \<and> agent_invoke_context (snd (new_plugin_func t a k w)) =
                Some \<lparr>ctx_tool_usage = ctx_tool_usage ctx @ [u],
                      ctx_attachments = ctx_attachments ctx @ extract_attachments r\<rparr>))
   \<and> (outcome (completion self (chat_history (history cd))) = Inr reply \<longrightarrow>
      (\<exists>turn us. fst (process self cd w0) = Inr turn
            \<and> content turn = reply
            \<and> metadata turn = [(''tool_usage'', us)]
            \<and> map logged_call us = invocations (completion self (chat_history (history cd)))))
   \<and> (completion self (chat_history (history cd)) =
         Invoke AddTool [] [(''x'', PInt 2), (''y'', PInt 3)] continue
       \<and> continue (Inr (PInt 5)) = Reply reply \<longrightarrow>
      (\<exists>turn u. fst (process self cd w0) = Inr turn
            \<and> content turn = reply
            \<and> metadata turn = [(''tool_usage'', [u])]
            \<and> tool_name u = ''Add'' \<and> args u = []
            \<and> kwargs u = [(''x'', PInt 2), (''y'', PInt 3)] \<and> result u = PInt 5))"
proof (intro conjI impI)
  assume h: "tool_function t a k = Inr r \<and> agent_invoke_context w = Some ctx"
  then have run: "new_plugin_func t a k w =
    (Inr r,
     w\<lparr>ticks := Suc (Suc (ticks w)),
       agent_invoke_context := Some
        \<lparr>ctx_tool_usage = ctx_tool_usage ctx @
            [\<lparr>tool_name = name t, args = a, kwargs = k, result = r,
              start_time = clock w (ticks w),
              duration = (clock w (Suc (ticks w)) - clock w (ticks w)) mod 1000000\<rparr>],
         ctx_attachments = ctx_attachments ctx @ extract_attachments r\<rparr>\<rparr>)"
    using new_plugin_func_returns by blast
  show "fst (new_plugin_func t a k w) = Inr r"
    by (simp add: run)
  show "\<exists>u. tool_name u = name t \<and> args u = a \<and> kwargs u = k \<and> result u = r
            \<and> agent_invoke_context (snd (new_plugin_func t a k w)) =
                Some \<lparr>ctx_tool_usage = ctx_tool_usage ctx @ [u],
                      ctx_attachments = ctx_attachments ctx @ extract_attachments r\<rparr>"
    unfolding run
    by (rule exI[of _ "\<lparr>tool_name = name t, args = a, kwargs = k, result = r,
              start_time = clock w (ticks w),
              duration = (clock w (Suc (ticks w)) - clock w (ticks w)) mod 1000000\<rparr>"]) simp
next
  assume "outcome (completion self (chat_history (history cd))) = Inr reply"
  from process_log[OF this, of w0]
  show "\<exists>turn us. fst (process self cd w0) = Inr turn
            \<and> content turn = reply
            \<and> metadata turn = [(''tool_usage'', us)]
            \<and> map logged_call us = invocations (completion self (chat_history (history cd)))"
    by blast
next
  let ?bb = "completion self (chat_history (history cd))"
  assume h: "?bb = Invoke AddTool [] [(''x'', PInt 2), (''y'', PInt 3)] continue
       \<and> continue (Inr (PInt 5)) = Reply reply"
  have add: "tool_function AddTool [] [(''x'', PInt 2), (''y'', PInt 3)] = Inr (PInt 5)"
    by (simp add: AddTool_def call_x_y_def py_add_def)
  have out: "outcome ?bb = Inr reply"
    using h add by simp
  have inv: "invocations ?bb = [(''Add'', [], [(''x'', PInt 2), (''y'', PInt 3)], PInt 5)]"
    using h add by (simp add: AddTool_def)
  from process_log[OF out, of w0] obtain turn us where
    t: "fst (process self cd w0) = Inr turn" "content turn = reply"
       "metadata turn = [(''tool_usage'', us)]" "map logged_call us = invocations ?bb"
    by blast
  from t(4) inv obtain u where u: "us = [u]"
    "logged_call u = (''Add'', [], [(''x'', PInt 2), (''y'', PInt 3)], PInt 5)"
    by (cases us) auto
  show "\<exists>turn u. fst (process self cd w0) = Inr turn
            \<and> content turn = reply
            \<and> metadata turn = [(''tool_usage'', [u])]
            \<and> tool_name u = ''Add'' \<and> args u = []
            \<and> kwargs u = [(''x'', PInt 2), (''y'', PInt 3)] \<and> result u = PInt 5"
    using t(1,2,3) u by (auto simp: logged_call_def)
qed

theorem new_plugin_func_transparent_witness:
  "tool_function AddTool [] [(''x'', PInt 2), (''y'', PInt 3)] = Inr (PInt 5)
   \<and> fst (new_plugin_func AddTool [] [(''x'', PInt 2), (''y'', PInt 3)]
            (idle_world\<lparr>agent_invoke_context :=
                 Some \<lparr>ctx_tool_usage = [], ctx_attachments = []\<rparr>\<rparr>)) = Inr (PInt 5)
   \<and> (\<exists>turn u. fst (process adding_agent
                     sample_conversation
                     idle_world) = Inr turn
          \<and> content turn = ''2 + 3 = 5''
          \<and> metadata turn = [(''tool_usage'', [u])]
          \<and> tool_name u = ''Add'' \<and> result u = PInt 5)"
proof -
  let ?kw = "[(''x'', PInt 2), (''y'', PInt 3)]"
  let ?w = "idle_world\<lparr>agent_invoke_context :=
                 Some \<lparr>ctx_tool_usage = [], ctx_attachments = []\<rparr>\<rparr>"
  let ?cd = "sample_conversation"
  let ?continue = "\<lambda>returned. if returned = Inr (PInt 5)
                                     then Reply ''2 + 3 = 5''
                                     else Reply ''I could not add the numbers.''"
  have add: "tool_function AddTool [] ?kw = Inr (PInt 5)"
    by (simp add: AddTool_def call_x_y_def py_add_def)
  have ctx: "agent_invoke_context ?w = Some \<lparr>ctx_tool_usage = [], ctx_attachments = []\<rparr>"
    by simp
  have bb: "completion adding_agent (chat_history (history ?cd)) = Invoke AddTool [] ?kw ?continue"
    by (simp add: adding_agent_def)
  have k: "?continue (Inr (PInt 5)) = Reply ''2 + 3 = 5''"
    by simp
  note inst = new_plugin_func_transparent[of AddTool "[]" ?kw "PInt 5" ?w
      "\<lparr>ctx_tool_usage = [], ctx_attachments = []\<rparr>" adding_agent ?cd "''2 + 3 = 5''"
      idle_world ?continue]
  from inst add ctx have "fst (new_plugin_func AddTool [] ?kw ?w) = Inr (PInt 5)"
    by blast
  moreover from inst bb k have "\<exists>turn u. fst (process adding_agent ?cd idle_world) = Inr turn
          \<and> content turn = ''2 + 3 = 5''
          \<and> metadata turn = [(''tool_usage'', [u])]
          \<and> tool_name u = ''Add'' \<and> result u = PInt 5"
    by blast
  ultimately show ?thesis
    using add by blast
qed

text \<open>
  C7. A call that takes 1.5 seconds is logged with a duration of 500000: the record holds
  the \<open>microseconds\<close> field of the elapsed time, not the elapsed time.
\<close>

theorem new_plugin_func_duration_microseconds:
  "new_plugin_func AddTool [] [(''x'', PInt 2), (''y'', PInt 3)]
      (idle_world\<lparr>agent_invoke_context := Some \<lparr>ctx_tool_usage = [], ctx_attachments = []\<rparr>\<rparr>)
   = (Inr (PInt 5),
      \<lparr>agent_invoke_context = Some
         \<lparr>ctx_tool_usage = [\<lparr>tool_name = ''Add'', args = [],
                              kwargs = [(''x'', PInt 2), (''y'', PInt 3)], result = PInt 5,
                              start_time = 0, duration = 500000\<rparr>],
          ctx_attachments = []\<rparr>,
       clock = (\<lambda>n. 1500000 * int n), ticks = 2\<rparr>)
   \<and> clock idle_world 1 - clock idle_world 0 = 1500000
   \<and> datetime_sub (clock idle_world 1) (clock idle_world 0)
       = \<lparr>days = 0, seconds = 1, microseconds = 500000\<rparr>"
  by (simp add: new_plugin_func_def datetime_now_def datetime_sub_def AddTool_def call_x_y_def
      py_add_def extract_attachments_def idle_world_def)

text \<open>
  C6. When the service raises, \<open>process\<close> ends with the context variable still bound to
  the context of the failed call, though it was unset before the call; a later call that
  succeeds then resets the variable to that stale context.
\<close>

theorem process_failure_leaves_context_set:
  "process failing_agent sample_conversation idle_world
     = (Inl (ServiceError ''request timed out''),
        idle_world\<lparr>agent_invoke_context := Some \<lparr>ctx_tool_usage = [], ctx_attachments = []\<rparr>\<rparr>)
   \<and> agent_invoke_context idle_world = None
   \<and> agent_invoke_context
        (snd (process adding_agent sample_conversation
               (snd (process failing_agent sample_conversation idle_world))))
       = Some \<lparr>ctx_tool_usage = [], ctx_attachments = []\<rparr>"
proof -
  have failed: "process failing_agent sample_conversation idle_world
     = (Inl (ServiceError ''request timed out''),
        idle_world\<lparr>agent_invoke_context := Some \<lparr>ctx_tool_usage = [], ctx_attachments = []\<rparr>\<rparr>)"
    by (simp add: process_def failing_agent_def adding_agent_def)
  have unset: "agent_invoke_context idle_world = None"
    by (simp add: idle_world_def)
  have later: "agent_invoke_context
        (snd (process adding_agent sample_conversation
               (idle_world\<lparr>agent_invoke_context :=
                   Some \<lparr>ctx_tool_usage = [], ctx_attachments = []\<rparr>\<rparr>)))
       = Some \<lparr>ctx_tool_usage = [], ctx_attachments = []\<rparr>"
    by (simp add: process_def adding_agent_def new_plugin_func_def datetime_now_def
        AddTool_def call_x_y_def py_add_def extract_attachments_def Let_def)
  show ?thesis
    using failed unset later by simp
qed

text \<open>
  C8. A turn whose role is \<open>system\<close> is handed to the service as an assistant message:
  \<open>process\<close> tells \<open>user\<close> from everything else. User and assistant turns keep
  their roles, and \<open>toMessages\<close> keeps the role of every turn.
\<close>

theorem chat_history_system_turn:
  "chat_history
     [\<lparr>role = ''system'', content = ''Answer briefly.'', created_at = 0,
       metadata = [], attachments = []\<rparr>,
      \<lparr>role = ''user'', content = ''What is 2 + 3?'', created_at = 1,
       metadata = [], attachments = []\<rparr>,
      \<lparr>role = ''assistant'', content = ''2 + 3 = 5'', created_at = 2,
       metadata = [], attachments = []\<rparr>]
     = [(ASSISTANT, ''Answer briefly.''), (USER, ''What is 2 + 3?''), (ASSISTANT, ''2 + 3 = 5'')]
   \<and> toMessages
       \<lparr>thread_id = None,
        history = [\<lparr>role = ''system'', content = ''Answer briefly.'', created_at = 0,
                    metadata = [], attachments = []\<rparr>],
        max_turns = 10\<rparr>
     = [(''system'', ''Answer briefly.'')]"
  by (simp add: chat_history_def add_message_def toMessages_def)

end
